theory Spec2Isabelle
  imports Main "HOL-Library.Sublist"
begin

section \<open>Sharp.AI: the analysis client, the preview generator and the style playground\<close>

text \<open>
  A shallow embedding of \<^verbatim>\<open>src/types.ts\<close>, \<^verbatim>\<open>src/services/geminiService.ts\<close> and the
  \<^verbatim>\<open>handleVisualize\<close> handler of \<^verbatim>\<open>src/components/StylePlayground.tsx\<close>.

  JavaScript strings are modelled as \<^typ>\<open>string\<close>; an optional property (\<^verbatim>\<open>p?: T\<close>) or a
  nullable state (\<^verbatim>\<open>T | null\<close>) as \<^typ>\<open>'a option\<close>; a thrown value as the left summand
  of a sum type. The awaited provider call \<^verbatim>\<open>ai.models.generateContent\<close> and the host's
  \<^verbatim>\<open>JSON.parse\<close> are not code of this repository: both are parameters of the functions that
  call them. \<^verbatim>\<open>console.error\<close> in the \<^verbatim>\<open>catch\<close> blocks writes a log line and changes no
  result; it is left out.
\<close>

subsection \<open>JavaScript primitives the code relies on\<close>

text \<open>\<^verbatim>\<open>s.split(sep)\<close> for a one-character separator: the pieces between the separators, in
  order; a string without the separator is the only piece.\<close>

fun js_split :: "char \<Rightarrow> string \<Rightarrow> string list" where
  "js_split sep [] = [[]]"
| "js_split sep (c # cs) =
     (if c = sep then [] # js_split sep cs
      else (case js_split sep cs of [] \<Rightarrow> [[c]] | w # ws \<Rightarrow> (c # w) # ws))"

text \<open>\<^verbatim>\<open>xs[i]\<close>: \<^verbatim>\<open>undefined\<close> out of range.\<close>

definition js_index :: "'a list \<Rightarrow> nat \<Rightarrow> 'a option" where
  "js_index xs i = (if i < length xs then Some (xs ! i) else None)"

text \<open>Truthiness of a value of type \<^verbatim>\<open>string | undefined | null\<close>: \<^verbatim>\<open>undefined\<close>,
  \<^verbatim>\<open>null\<close> and the empty string are falsy.\<close>

definition truthy :: "string option \<Rightarrow> bool" where
  "truthy v = (case v of None \<Rightarrow> False | Some s \<Rightarrow> s \<noteq> [])"

text \<open>\<^verbatim>\<open>a || b\<close> on strings.\<close>

definition js_or :: "string option \<Rightarrow> string \<Rightarrow> string" where
  "js_or a b = (case a of None \<Rightarrow> b | Some s \<Rightarrow> if s \<noteq> [] then s else b)"

text \<open>\<^verbatim>\<open>s.includes(p)\<close>: \<open>p\<close> occurs in \<open>s\<close> as a contiguous fragment.\<close>

fun js_includes :: "string \<Rightarrow> string \<Rightarrow> bool" where
  "js_includes [] p = (p = [])"
| "js_includes (c # cs) p = (prefix p (c # cs) \<or> js_includes cs p)"

subsection \<open>\<^verbatim>\<open>types.ts\<close>\<close>

datatype AnalysisMode = COMPLETE | HAIRSTYLE_ONLY | FACIAL_HAIR_ONLY

text \<open>\<^verbatim>\<open>JSON.parse(...) as AnalysisResult\<close> is an unchecked cast: what \<^verbatim>\<open>analyzeFace\<close> returns
  is whatever JSON value the text denotes. Numbers carry their literal.\<close>

datatype json =
    JNull
  | JBool bool
  | JNumber string
  | JString string
  | JArray "json list"
  | JObject "(string \<times> json) list"

text \<open>\<^verbatim>\<open>v.k\<close> on a parsed value: the property of an object (the last of duplicate keys, as
  \<^verbatim>\<open>JSON.parse\<close> keeps it), \<^verbatim>\<open>undefined\<close> otherwise.\<close>

fun property :: "json \<Rightarrow> string \<Rightarrow> json option" where
  "property (JObject kvs) k = map_of (rev kvs) k"
| "property _ k = None"

subsection \<open>The provider's request and response shapes\<close>

text \<open>The types of the \<^verbatim>\<open>@google/genai\<close> SDK as the code reads and writes them. Every property
  the code tests before use is optional.\<close>

record Blob =
  mimeType :: "string option"
  data :: "string option"

record Part =
  inlineData :: "Blob option"
  part_text :: "string option"

record Content =
  parts :: "Part list option"

record Candidate =
  content :: "Content option"

text \<open>The property \<^verbatim>\<open>text\<close> of a part is \<open>part_text\<close> and \<^verbatim>\<open>response.text\<close> is
  \<open>response_text\<close>: \<^verbatim>\<open>text\<close> is a keyword of the theory language.\<close>

record GenerateContentResponse =
  candidates :: "Candidate list option"
  response_text :: "string option"

datatype SchemaType = OBJECT | STRING | ARRAY

text \<open>A schema: its type, description, properties, items and required property names.\<close>

datatype Schema =
  Schema SchemaType "string option" "(string \<times> Schema) list" "Schema option" "string list"

record GenerateContentConfig =
  systemInstruction :: string
  responseMimeType :: string
  responseSchema :: Schema

record GenerateContentParameters =
  model :: string
  contents :: Content
  config :: "GenerateContentConfig option"

text \<open>Thrown values: \<^verbatim>\<open>new Error(message)\<close> raised by this code, the \<^verbatim>\<open>TypeError\<close> of reading a
  property of \<^verbatim>\<open>undefined\<close>, the \<^verbatim>\<open>SyntaxError\<close> of \<^verbatim>\<open>JSON.parse\<close>, and whatever the
  provider call rejected with.\<close>

datatype 'e thrown = Error string | TypeError | SyntaxError | Rejected 'e

subsection \<open>\<^verbatim>\<open>geminiService.ts\<close>\<close>

definition BASE_SYSTEM_INSTRUCTION :: string where
  \<open>BASE_SYSTEM_INSTRUCTION =
     ''\<newline>'' @
     ''You are an expert professional stylist and barber with deep knowledge of face shapes, aesthetics, and grooming.\<newline>'' @
     ''Your task is to analyze a user's facial image and provide personalized recommendations.\<newline>'' @
     ''1. Identify the user's face shape (e.g., Oval, Round, Square, Diamond, Heart, Oblong).\<newline>'' @
     ''2. Analyze key facial features (jawline, forehead, cheekbones).\<newline>'' @
     ''3. Recommend styles based on the specific request mode.\<newline>'' @
     ''4. Provide 3-4 general grooming or styling tips.\<newline>'' @
     ''\<newline>'' @
     ''Be specific about WHY a style works (e.g., "Adds volume to top to elongate a round face").\<newline>''\<close>

definition string_schema :: "string \<Rightarrow> Schema" where
  "string_schema d = Schema STRING (Some d) [] None []"

definition RESPONSE_SCHEMA :: Schema where
  \<open>RESPONSE_SCHEMA =
     Schema OBJECT None
       [(''faceShape'', string_schema ''The identified shape of the face (e.g., Oval, Square).''),
        (''faceAnalysis'',
           string_schema ''A brief analysis of the facial features contributing to this shape.''),
        (''hairstyles'',
           Schema ARRAY (Some ''Recommended hairstyles. Empty if facial hair only.'') []
             (Some (Schema OBJECT None
                [(''name'', string_schema ''Name of the hairstyle.''),
                 (''description'', string_schema ''Description of the cut.''),
                 (''reasoning'', string_schema ''Why this suits the user.'')]
                None [''name'', ''description'', ''reasoning''])) []),
        (''facialHair'',
           Schema ARRAY
             (Some ''Recommended beard or facial hair styles. Empty if hairstyle only.'') []
             (Some (Schema OBJECT None
                [(''name'', string_schema ''Name of the style.''),
                 (''description'', string_schema ''Description of the style.''),
                 (''reasoning'', string_schema ''Why this suits the user.'')]
                None [''name'', ''description'', ''reasoning''])) []),
        (''combinations'',
           Schema ARRAY (Some ''Recommended combinations. Empty if single mode selected.'') []
             (Some (Schema OBJECT None
                [(''name'', string_schema ''Creative name for the combination.''),
                 (''hairstyle'',
                    string_schema ''The specific hairstyle used in this combination.''),
                 (''facialHair'', string_schema ''The specific facial hair style used.''),
                 (''description'', string_schema ''Overall description of the look.''),
                 (''reasoning'', string_schema ''Why this combination works together.'')]
                None [''name'', ''hairstyle'', ''facialHair'', ''description'', ''reasoning''])) []),
        (''groomingTips'',
           Schema ARRAY (Some ''General grooming tips.'') []
             (Some (Schema STRING None [] None [])) [])]
       None
       [''faceShape'', ''faceAnalysis'', ''hairstyles'', ''facialHair'', ''combinations'',
        ''groomingTips'']\<close>

text \<open>\<^verbatim>\<open>base64Image.split(',')[1] || base64Image\<close>, the same expression in both functions
  (``Remove header if present'').\<close>

definition cleanBase64 :: "string \<Rightarrow> string" where
  "cleanBase64 base64Image = js_or (js_index (js_split (CHR '','') base64Image) 1) base64Image"

definition modeInstruction :: "AnalysisMode \<Rightarrow> string" where
  \<open>modeInstruction mode =
     (if mode = HAIRSTYLE_ONLY then
        ''FOCUS ONLY ON HAIRSTYLES. Return an empty array for 'facialHair'. Populate 'hairstyles' with 4-5 options. Populate 'combinations' with 3 distinct hairstyle-only transformations (leave facialHair as empty string in combinations).''
      else if mode = FACIAL_HAIR_ONLY then
        ''FOCUS ONLY ON FACIAL HAIR. Return an empty array for 'hairstyles'. Populate 'facialHair' with 4-5 options. Populate 'combinations' with 3 distinct facial-hair-only transformations (leave hairstyle as empty string in combinations).''
      else
        ''Recommend 3-4 specific hairstyles, 3-4 specific facial hair styles, and 3 distinct 'Look Combinations' pairing them together.'')\<close>

definition fullSystemInstruction :: "AnalysisMode \<Rightarrow> string" where
  \<open>fullSystemInstruction mode =
     BASE_SYSTEM_INSTRUCTION @ ''\<newline>\<newline>CURRENT MODE: '' @ modeInstruction mode\<close>

text \<open>The argument of \<^verbatim>\<open>generateContent\<close> in \<^verbatim>\<open>analyzeFace\<close>: what is transmitted.\<close>

definition analyzeFace_request :: "string \<Rightarrow> AnalysisMode \<Rightarrow> GenerateContentParameters" where
  \<open>analyzeFace_request base64Image mode =
     \<lparr>model = ''gemini-2.5-flash'',
      contents = \<lparr>parts = Some
        [\<lparr>inlineData = Some \<lparr>mimeType = Some ''image/jpeg'', data = Some (cleanBase64 base64Image)\<rparr>,
          part_text = None\<rparr>,
         \<lparr>inlineData = None,
          part_text = Some ''Analyze this face and recommend styles based on the mode provided in system instructions.''\<rparr>]\<rparr>,
      config = Some
        \<lparr>systemInstruction = fullSystemInstruction mode,
         responseMimeType = ''application/json'',
         responseSchema = RESPONSE_SCHEMA\<rparr>\<rparr>\<close>

text \<open>\<^verbatim>\<open>analyzeFace\<close>. Every \<^verbatim>\<open>throw\<close> inside the \<^verbatim>\<open>try\<close> is caught and thrown again as it is,
  so each is a left summand of the result.\<close>

definition analyzeFace ::
  "(GenerateContentParameters \<Rightarrow> 'e + GenerateContentResponse) \<Rightarrow> (string \<Rightarrow> json option) \<Rightarrow>
   string \<Rightarrow> AnalysisMode \<Rightarrow> 'e thrown + json" where
  "analyzeFace generateContent JSON_parse base64Image mode =
     (case generateContent (analyzeFace_request base64Image mode) of
        Inl e \<Rightarrow> Inl (Rejected e)
      | Inr response \<Rightarrow>
          (case response_text response of
             None \<Rightarrow> Inl (Error ''No response text received from Gemini.'')
           | Some t \<Rightarrow>
               (if t \<noteq> [] then
                  (case JSON_parse t of None \<Rightarrow> Inl SyntaxError | Some v \<Rightarrow> Inr v)
                else Inl (Error ''No response text received from Gemini.''))))"

text \<open>The argument of \<^verbatim>\<open>generateContent\<close> in \<^verbatim>\<open>generateLookPreview\<close>.\<close>

definition generateLookPreview_request :: "string \<Rightarrow> string \<Rightarrow> GenerateContentParameters" where
  \<open>generateLookPreview_request originalBase64 combinationDescription =
     \<lparr>model = ''gemini-2.5-flash-image'',
      contents = \<lparr>parts = Some
        [\<lparr>inlineData = Some \<lparr>mimeType = Some ''image/jpeg'', data = Some (cleanBase64 originalBase64)\<rparr>,
          part_text = None\<rparr>,
         \<lparr>inlineData = None,
          part_text = Some
            (''Edit this image to show the person with the following style: '' @
             combinationDescription @
             ''. \<newline>            Maintain the person's original identity, face shape, skin tone, and lighting. \<newline>            Make it look like a photorealistic after-haircut photo.'')\<rparr>]\<rparr>,
      config = None\<rparr>\<close>

text \<open>The \<^verbatim>\<open>for\<close> loop over the parts: the data of the first part whose \<^verbatim>\<open>inlineData\<close> and
  \<^verbatim>\<open>inlineData.data\<close> are both truthy.\<close>

fun scan_parts :: "Part list \<Rightarrow> string option" where
  "scan_parts [] = None"
| "scan_parts (part # rest) =
     (case inlineData part of
        None \<Rightarrow> scan_parts rest
      | Some blob \<Rightarrow> if truthy (data blob) then data blob else scan_parts rest)"

text \<open>The extraction after the call. \<^verbatim>\<open>response.candidates[0].content.parts\<close> reads
  \<^verbatim>\<open>.content\<close> of \<^verbatim>\<open>undefined\<close> when the array is empty, and \<^verbatim>\<open>.parts\<close> of \<^verbatim>\<open>undefined\<close>
  when the first candidate has no content: a \<^verbatim>\<open>TypeError\<close> each time.\<close>

definition extract_image :: "GenerateContentResponse \<Rightarrow> 'e thrown + string" where
  "extract_image response =
     (case candidates response of
        None \<Rightarrow> Inl (Error ''No image generated.'')
      | Some [] \<Rightarrow> Inl TypeError
      | Some (candidate # _) \<Rightarrow>
          (case content candidate of
             None \<Rightarrow> Inl TypeError
           | Some c \<Rightarrow>
               (case parts c of
                  None \<Rightarrow> Inl (Error ''No image generated.'')
                | Some ps \<Rightarrow>
                    (case scan_parts ps of
                       Some d \<Rightarrow> Inr (''data:image/png;base64,'' @ d)
                     | None \<Rightarrow> Inl (Error ''No image generated.'')))))"

definition generateLookPreview ::
  "(GenerateContentParameters \<Rightarrow> 'e + GenerateContentResponse) \<Rightarrow> string \<Rightarrow> string \<Rightarrow>
   'e thrown + string" where
  "generateLookPreview generateContent originalBase64 combinationDescription =
     (case generateContent (generateLookPreview_request originalBase64 combinationDescription) of
        Inl e \<Rightarrow> Inl (Rejected e)
      | Inr response \<Rightarrow> extract_image response)"

text \<open>The inline images of a request, in part order: what is transmitted as image bytes.\<close>

definition image_blobs :: "GenerateContentParameters \<Rightarrow> Blob list" where
  "image_blobs request =
     List.map_filter inlineData (case parts (contents request) of None \<Rightarrow> [] | Some ps \<Rightarrow> ps)"

subsection \<open>\<^verbatim>\<open>StylePlayground.tsx\<close>\<close>

text \<open>The asset-backed catalogs offered in the explore view.\<close>

definition ALL_HAIRSTYLES :: "string list" where
  "ALL_HAIRSTYLES =
     [''Afro'', ''Braids / Cornrows'', ''Buzz Cut'', ''Caesar Cut'', ''Crew Cut'',
      ''Curly Hair'', ''Dreadlocks'', ''Fade'', ''Fringe / Bangs'', ''Long Wavy Flow'',
      ''Man Bun'', ''Pompadour'', ''Quiff'', ''Side Part'', ''Slick Back'',
      ''Spiky / Faux Hawk'', ''Textured Crop'', ''Undercut'']"

definition ALL_FACIAL_HAIR :: "string list" where
  "ALL_FACIAL_HAIR =
     [''Anchor Beard'', ''Balbo'', ''Chin Strap'', ''Clean Shaven'', ''Full Beard'',
      ''Goatee'', ''Heavy Stubble'', ''Mutton Chops'', ''Chevron Mustache'',
      ''Short Boxed Beard'', ''Prominent Sideburns'', ''Van Dyke'']"

datatype ViewMode = recommended | explore

text \<open>The component's \<^verbatim>\<open>useState\<close> cells.\<close>

record PlaygroundState =
  viewMode :: ViewMode
  selectedHair :: "string option"
  selectedBeard :: "string option"
  isGenerating :: bool
  generatedImage :: "string option"
  error :: "string option"
  sliderPosition :: int
  containerWidth :: int

text \<open>\<^verbatim>\<open>selectedHair ? `Hairstyle: ${selectedHair}` : ''\<close> and its facial-hair twin.\<close>

definition hairPart :: "string option \<Rightarrow> string" where
  "hairPart selected =
     (case selected of None \<Rightarrow> [] | Some h \<Rightarrow> if h \<noteq> [] then ''Hairstyle: '' @ h else [])"

definition beardPart :: "string option \<Rightarrow> string" where
  "beardPart selected =
     (case selected of None \<Rightarrow> [] | Some b \<Rightarrow> if b \<noteq> [] then ''Facial Hair: '' @ b else [])"

text \<open>
  \<^verbatim>\<open>handleVisualize\<close>, run to completion from the state it was invoked in, with no other
  event in between. It returns the calls made to \<^verbatim>\<open>generateLookPreview\<close> (image and
  description) and the state after the \<^verbatim>\<open>finally\<close> block.
\<close>

definition handleVisualize ::
  "(GenerateContentParameters \<Rightarrow> 'e + GenerateContentResponse) \<Rightarrow> string \<Rightarrow> PlaygroundState \<Rightarrow>
   (string \<times> string) list \<times> PlaygroundState" where
  "handleVisualize generateContent originalImageBase64 st =
     (if hairPart (selectedHair st) = [] \<and> beardPart (selectedBeard st) = [] then ([], st)
      else
        let st1 = st\<lparr>isGenerating := True, error := None\<rparr>;
            description =
              hairPart (selectedHair st) @ ''. '' @ beardPart (selectedBeard st) @
              ''. Create a cohesive look.'';
            st2 =
              (case generateLookPreview generateContent originalImageBase64 description of
                 Inr imageUrl \<Rightarrow> st1\<lparr>generatedImage := Some imageUrl, sliderPosition := 50\<rparr>
               | Inl err \<Rightarrow> st1\<lparr>error := Some ''Could not generate preview. Please try again.''\<rparr>)
        in ([(originalImageBase64, description)], st2\<lparr>isGenerating := False\<rparr>))"

text \<open>The \<^verbatim>\<open>disabled\<close> attribute of the action button.\<close>

definition visualize_disabled :: "PlaygroundState \<Rightarrow> bool" where
  "visualize_disabled st =
     (isGenerating st \<or> (\<not> truthy (selectedHair st) \<and> \<not> truthy (selectedBeard st)))"

subsection \<open>Properties the specification names\<close>

text \<open>The per-mode invariant of an analysis result, in the specification's words: no
  hairstyles in facial-hair-only mode, no facial hair in hairstyle-only mode, three or four
  of each and exactly three combinations in complete mode.\<close>

definition array_property :: "json \<Rightarrow> string \<Rightarrow> json list option" where
  "array_property v k = (case property v k of Some (JArray xs) \<Rightarrow> Some xs | _ \<Rightarrow> None)"

definition mode_invariant :: "AnalysisMode \<Rightarrow> json \<Rightarrow> bool" where
  "mode_invariant mode r =
     (case mode of
        FACIAL_HAIR_ONLY \<Rightarrow> array_property r ''hairstyles'' = Some []
      | HAIRSTYLE_ONLY \<Rightarrow> array_property r ''facialHair'' = Some []
      | COMPLETE \<Rightarrow>
          (case (array_property r ''hairstyles'', array_property r ''facialHair'',
                 array_property r ''combinations'') of
             (Some hs, Some fh, Some cs) \<Rightarrow>
               3 \<le> length hs \<and> length hs \<le> 4 \<and> 3 \<le> length fh \<and> length fh \<le> 4 \<and> length cs = 3
           | _ \<Rightarrow> False))"

text \<open>Every content part of a response, over all its candidates, in order.\<close>

definition response_parts :: "GenerateContentResponse \<Rightarrow> Part list" where
  "response_parts response =
     concat (map (\<lambda>candidate.
                    case content candidate of
                      None \<Rightarrow> []
                    | Some c \<Rightarrow> (case parts c of None \<Rightarrow> [] | Some ps \<Rightarrow> ps))
                 (case candidates response of None \<Rightarrow> [] | Some cs \<Rightarrow> cs))"

text \<open>A content part that carries inline image bytes.\<close>

definition carries_image :: "Part \<Rightarrow> bool" where
  "carries_image part = (case inlineData part of None \<Rightarrow> False | Some blob \<Rightarrow> truthy (data blob))"

text \<open>Base64 text: digits of the base64 alphabet, then at most two padding characters, a
  multiple of four characters in all.\<close>

definition base64_digit :: "char \<Rightarrow> bool" where
  "base64_digit c =
     (c \<in> set ''ABCDEFGHIJKLMNOPQRSTUVWXYZabcdefghijklmnopqrstuvwxyz0123456789+/'')"

definition is_base64 :: "string \<Rightarrow> bool" where
  "is_base64 s =
     (list_all base64_digit (takeWhile (\<lambda>c. c \<noteq> CHR ''='') s) \<and>
      dropWhile (\<lambda>c. c \<noteq> CHR ''='') s \<in> set [[], ''='', ''==''] \<and>
      length s mod 4 = 0)"

text \<open>A syntactically valid PNG data URI: the header \<^verbatim>\<open>data:image/png;base64,\<close> and base64
  text after it.\<close>

definition valid_png_data_uri :: "string \<Rightarrow> bool" where
  "valid_png_data_uri u =
     (prefix ''data:image/png;base64,'' u \<and> is_base64 (drop (length ''data:image/png;base64,'') u))"

text \<open>A data-URL header with its closing comma: \<^verbatim>\<open>data:<media type>;base64,\<close>, the media
  type free of commas.\<close>

definition data_url_header :: "string \<Rightarrow> string" where
  "data_url_header media = ''data:'' @ media @ '';base64,''"

subsection \<open>Sample inputs\<close>

text \<open>A response text that follows the declared schema and recommends a hairstyle, and the
  value it denotes.\<close>

definition sample_text :: string where
  \<open>sample_text =
     ''{"faceShape":"Oval","faceAnalysis":"Balanced proportions.","hairstyles":[{"name":"Quiff","description":"Short sides, volume on top.","reasoning":"Adds height."}],"facialHair":[{"name":"Goatee","description":"A chin beard.","reasoning":"Defines the chin."}],"combinations":[],"groomingTips":["Trim every three weeks."]}''\<close>

definition sample_result :: json where
  \<open>sample_result =
     JObject
       [(''faceShape'', JString ''Oval''),
        (''faceAnalysis'', JString ''Balanced proportions.''),
        (''hairstyles'',
           JArray [JObject [(''name'', JString ''Quiff''),
                            (''description'', JString ''Short sides, volume on top.''),
                            (''reasoning'', JString ''Adds height.'')]]),
        (''facialHair'',
           JArray [JObject [(''name'', JString ''Goatee''),
                            (''description'', JString ''A chin beard.''),
                            (''reasoning'', JString ''Defines the chin.'')]]),
        (''combinations'', JArray []),
        (''groomingTips'', JArray [JString ''Trim every three weeks.''])]\<close>

text \<open>\<^verbatim>\<open>JSON.parse\<close> on the sample text; every other text is taken as unparseable here.\<close>

definition sample_parse :: "string \<Rightarrow> json option" where
  "sample_parse t = (if t = sample_text then Some sample_result else None)"

text \<open>Provider calls that answer every request the same way.\<close>

definition answer_text :: "string option \<Rightarrow> GenerateContentParameters \<Rightarrow> unit + GenerateContentResponse" where
  "answer_text t request = Inr \<lparr>candidates = None, response_text = t\<rparr>"

definition answer_candidates ::
  "Candidate list option \<Rightarrow> GenerateContentParameters \<Rightarrow> unit + GenerateContentResponse" where
  "answer_candidates cs request = Inr \<lparr>candidates = cs, response_text = None\<rparr>"

definition reject :: "GenerateContentParameters \<Rightarrow> unit + GenerateContentResponse" where
  "reject request = Inl ()"

definition text_part :: "string \<Rightarrow> Part" where
  "text_part t = \<lparr>inlineData = None, part_text = Some t\<rparr>"

definition image_part :: "string \<Rightarrow> Part" where
  "image_part d = \<lparr>inlineData = Some \<lparr>mimeType = Some ''image/png'', data = Some d\<rparr>, part_text = None\<rparr>"

definition idle_state :: PlaygroundState where
  "idle_state =
     \<lparr>viewMode = recommended, selectedHair = None, selectedBeard = None, isGenerating = False,
      generatedImage = None, error = None, sliderPosition = 50, containerWidth = 0\<rparr>"

section \<open>Facts about the primitives\<close>

lemma js_split_not_Nil: "js_split sep s \<noteq> []"
  by (induction s) (auto split: list.splits)

lemma js_split_no_sep: "sep \<notin> set s \<Longrightarrow> js_split sep s = [s]"
  by (induction s) auto

lemma js_split_at_sep:
  "sep \<notin> set a \<Longrightarrow> js_split sep (a @ sep # r) = a # js_split sep r"
  by (induction a) auto

lemma hd_js_split: "hd (js_split sep s) = takeWhile (\<lambda>c. c \<noteq> sep) s"
  by (induction s) (auto simp: js_split_not_Nil split: list.splits)


lemma js_includes_iff_sublist: "js_includes s p \<longleftrightarrow> sublist p s"
  by (induction s) (simp_all add: sublist_Cons_right)


text \<open>A fragment found in \<open>a @ h @ b\<close> lies inside \<open>h\<close> when its first character does not
  occur in \<open>a\<close> and its last character does not occur in \<open>b\<close>.\<close>

lemma sublist_between:
  assumes "f \<noteq> []" and "hd f \<notin> set a" and "last f \<notin> set b" and "sublist f (a @ h @ b)"
  shows "sublist f h"
proof -
  from assms(4) obtain ps ss where eq: "a @ h @ b = ps @ f @ ss"
    by (auto simp: sublist_def)
  then obtain us where us: "a = ps @ us \<and> us @ h @ b = f @ ss \<or> a @ us = ps \<and> h @ b = us @ f @ ss"
    using append_eq_append_conv2 [THEN iffD1, OF eq] by blast
  have "\<exists>us. h @ b = us @ f @ ss"
  proof (cases "a = ps @ us \<and> us @ h @ b = f @ ss")
    case True
    have "us = []"
    proof (rule ccontr)
      assume "us \<noteq> []"
      then have "hd us = hd f"
        using True assms(1) by (metis hd_append2)
      then have "hd f \<in> set a"
        using True \<open>us \<noteq> []\<close> by (metis hd_in_set in_set_conv_decomp Un_iff set_append)
      then show False using assms(2) by simp
    qed
    then have "h @ b = [] @ f @ ss" using True by simp
    then show ?thesis by blast
  next
    case False
    then show ?thesis using us by blast
  qed
  then obtain us where eq': "h @ b = (us @ f) @ ss"
    by auto
  obtain vs where vs: "h = (us @ f) @ vs \<and> vs @ b = ss \<or> h @ vs = us @ f \<and> b = vs @ ss"
    using append_eq_append_conv2 [THEN iffD1, OF eq'] by blast
  show ?thesis
  proof (cases "h = (us @ f) @ vs \<and> vs @ b = ss")
    case True
    then have "h = us @ f @ vs" by simp
    then show ?thesis unfolding sublist_def by blast
  next
    case False
    then have hv: "h @ vs = us @ f" and b: "b = vs @ ss" using vs by auto
    have "vs = []"
    proof (rule ccontr)
      assume "vs \<noteq> []"
      then have "last vs = last f"
        using hv assms(1) by (metis last_appendR)
      then have "last f \<in> set b"
        using b \<open>vs \<noteq> []\<close> by (metis last_in_set Un_iff set_append)
      then show False using assms(3) by simp
    qed
    then have "h = us @ f @ []" using hv by simp
    then show ?thesis unfolding sublist_def by blast
  qed
qed


section \<open>Stripping the data-URL header\<close>

text \<open>Without a comma the input is sent as it is.\<close>

lemma cleanBase64_no_comma: "CHR '','' \<notin> set s \<Longrightarrow> cleanBase64 s = s"
  by (simp add: cleanBase64_def js_split_no_sep js_index_def js_or_def)

text \<open>With a comma: the piece after the first comma, up to the next comma or the end, unless
  that piece is empty; then the whole input.\<close>

lemma cleanBase64_at_comma:
  assumes "CHR '','' \<notin> set a"
  shows "cleanBase64 (a @ CHR '','' # r) =
    (if takeWhile (\<lambda>c. c \<noteq> CHR '','') r \<noteq> [] then takeWhile (\<lambda>c. c \<noteq> CHR '','') r
     else a @ CHR '','' # r)"
proof -
  obtain w ws where split_r: "js_split (CHR '','') r = w # ws"
    using js_split_not_Nil by (cases "js_split (CHR '','') r") auto
  have "w = takeWhile (\<lambda>c. c \<noteq> CHR '','') r"
    using hd_js_split [of "CHR '',''" r] split_r by simp
  then show ?thesis
    using assms split_r by (simp add: cleanBase64_def js_split_at_sep js_index_def js_or_def)
qed

text \<open>Stripping twice is stripping once, on every string.\<close>

lemma cleanBase64_idem: "cleanBase64 (cleanBase64 s) = cleanBase64 s"
proof (cases "CHR '','' \<in> set s")
  case False
  then show ?thesis by (simp add: cleanBase64_no_comma)
next
  case True
  then obtain a r where s: "s = a @ CHR '','' # r" and a: "CHR '','' \<notin> set a"
    by (auto dest: split_list_first)
  let ?b = "takeWhile (\<lambda>c. c \<noteq> CHR '','') r"
  have b: "CHR '','' \<notin> set ?b"
    by (auto dest: set_takeWhileD)
  show ?thesis
  proof (cases "?b = []")
    case True
    then show ?thesis using a s by (simp add: cleanBase64_at_comma)
  next
    case False
    then have "cleanBase64 s = ?b" using a s by (simp add: cleanBase64_at_comma)
    then show ?thesis using b by (simp add: cleanBase64_no_comma)
  qed
qed

text \<open>A header in front of a payload that is not empty is removed.\<close>

lemma cleanBase64_strips_header:
  assumes "CHR '','' \<notin> set media" and "CHR '','' \<notin> set payload" and "payload \<noteq> []"
  shows "cleanBase64 (data_url_header media @ payload) = payload"
proof -
  define h where "h = ''data:'' @ media @ '';base64''"
  have h: "CHR '','' \<notin> set h"
    using assms(1) by (simp add: h_def)
  have whole: "takeWhile (\<lambda>c. c \<noteq> CHR '','') payload = payload"
    using assms(2) by (auto simp: takeWhile_eq_all_conv)
  have "data_url_header media @ payload = h @ CHR '','' # payload"
    by (simp add: data_url_header_def h_def)
  then show ?thesis
    using cleanBase64_at_comma [OF h, of payload] whole assms(3) by simp
qed

lemma image_blobs_analyzeFace:
  "image_blobs (analyzeFace_request base64Image mode) =
     [\<lparr>mimeType = Some ''image/jpeg'', data = Some (cleanBase64 base64Image)\<rparr>]"
  by (simp add: image_blobs_def analyzeFace_request_def List.map_filter_simps)

lemma image_blobs_generateLookPreview:
  "image_blobs (generateLookPreview_request originalBase64 d) =
     [\<lparr>mimeType = Some ''image/jpeg'', data = Some (cleanBase64 originalBase64)\<rparr>]"
  by (simp add: image_blobs_def generateLookPreview_request_def List.map_filter_simps)

text \<open>
  Claim C2 (data-URL header stripping: a payload sent with or without the header
  \<^verbatim>\<open>data:...;base64,\<close> yields the same transmitted bytes). The code misses the empty
  payload: \<^verbatim>\<open>split(',')[1]\<close> is then the empty string, which \<^verbatim>\<open>||\<close> takes for absent, so
  the header itself is transmitted, while the bare empty payload is transmitted as the
  empty string. This holds for both \<^verbatim>\<open>analyzeFace\<close> and \<^verbatim>\<open>generateLookPreview\<close>.
\<close>

theorem empty_payload_keeps_header:
  "map data (image_blobs (analyzeFace_request (data_url_header ''image/jpeg'' @ []) COMPLETE)) =
     [Some ''data:image/jpeg;base64,''] \<and>
   map data (image_blobs (analyzeFace_request [] COMPLETE)) = [Some []] \<and>
   map data (image_blobs (generateLookPreview_request (data_url_header ''image/jpeg'' @ [])
     ''Hairstyle: Quiff'')) = [Some ''data:image/jpeg;base64,''] \<and>
   map data (image_blobs (generateLookPreview_request [] ''Hairstyle: Quiff'')) = [Some []]"
  by (simp add: image_blobs_analyzeFace image_blobs_generateLookPreview cleanBase64_def
      js_index_def js_or_def data_url_header_def)





section \<open>The analysis client\<close>

text \<open>
  Claim C1, as amended (what \<^verbatim>\<open>analyzeFace\<close> returns): for every provider response whose
  text is not empty and parses as JSON, \<^verbatim>\<open>analyzeFace\<close> returns the parsed value as it is, in
  every mode. The per-mode invariant is not checked: the result has it only when the
  provider's text has it.
\<close>

theorem analyzeFace_returns_parse_verbatim:
  assumes "generateContent (analyzeFace_request base64Image mode) = Inr response"
    and "response_text response = Some t" and "t \<noteq> []" and "JSON_parse t = Some v"
  shows "analyzeFace generateContent JSON_parse base64Image mode = Inr v"
  using assms by (simp add: analyzeFace_def)

theorem analyzeFace_returns_parse_verbatim_witness:
  "analyzeFace (answer_text (Some sample_text)) sample_parse ''QUJD'' COMPLETE = Inr sample_result"
  using analyzeFace_returns_parse_verbatim
    [of "answer_text (Some sample_text)" "''QUJD''" COMPLETE
        "\<lparr>candidates = None, response_text = Some sample_text\<rparr>" sample_text sample_parse
        sample_result]
  by (simp add: answer_text_def sample_parse_def sample_text_def)

text \<open>The claim as stated fails: in facial-hair-only mode a response text that lists a
  hairstyle is returned with its hairstyle.\<close>

theorem mode_invariant_counterexample:
  "sample_parse sample_text = Some sample_result \<and>
   analyzeFace (answer_text (Some sample_text)) sample_parse ''QUJD'' FACIAL_HAIR_ONLY =
     Inr sample_result \<and>
   \<not> mode_invariant FACIAL_HAIR_ONLY sample_result"
  by (simp add: analyzeFace_def answer_text_def sample_parse_def sample_text_def
      mode_invariant_def array_property_def sample_result_def)














text \<open>
  Claim C6 (the three outcomes of \<^verbatim>\<open>analyzeFace\<close>): it fails with the ``no response'' error
  exactly when the provider call succeeds and returns no text (none, or the empty string);
  when text is present it returns what \<^verbatim>\<open>JSON.parse\<close> gives for that text (its
  \<^verbatim>\<open>SyntaxError\<close> included); and when the provider call fails, the value it was rejected with
  is what \<^verbatim>\<open>analyzeFace\<close> throws.
\<close>

theorem analyzeFace_outcomes:
  "(analyzeFace generateContent JSON_parse base64Image mode =
      Inl (Error ''No response text received from Gemini.'') \<longleftrightarrow>
    (\<exists>response. generateContent (analyzeFace_request base64Image mode) = Inr response \<and>
       \<not> truthy (response_text response))) \<and>
   (\<forall>response. generateContent (analyzeFace_request base64Image mode) = Inr response \<and>
       truthy (response_text response) \<longrightarrow>
       (\<exists>t. response_text response = Some t \<and>
          analyzeFace generateContent JSON_parse base64Image mode =
            (case JSON_parse t of None \<Rightarrow> Inl SyntaxError | Some v \<Rightarrow> Inr v))) \<and>
   (\<forall>e. generateContent (analyzeFace_request base64Image mode) = Inl e \<longrightarrow>
       analyzeFace generateContent JSON_parse base64Image mode = Inl (Rejected e))"
  by (auto simp: analyzeFace_def truthy_def split: sum.splits option.splits)

theorem analyzeFace_outcomes_witness:
  "analyzeFace (answer_text None) sample_parse ''QUJD'' COMPLETE =
     Inl (Error ''No response text received from Gemini.'') \<and>
   analyzeFace (answer_text (Some sample_text)) sample_parse ''QUJD'' COMPLETE = Inr sample_result \<and>
   analyzeFace (answer_text (Some ''<html>'')) sample_parse ''QUJD'' COMPLETE = Inl SyntaxError \<and>
   analyzeFace reject sample_parse ''QUJD'' COMPLETE = Inl (Rejected ())"
  using analyzeFace_outcomes [of "answer_text None" sample_parse "''QUJD''" COMPLETE]
    analyzeFace_outcomes [of "answer_text (Some sample_text)" sample_parse "''QUJD''" COMPLETE]
    analyzeFace_outcomes [of "answer_text (Some ''<html>'')" sample_parse "''QUJD''" COMPLETE]
    analyzeFace_outcomes [of reject sample_parse "''QUJD''" COMPLETE]
  by (simp add: answer_text_def reject_def truthy_def sample_parse_def sample_text_def)

section \<open>The preview generator\<close>

lemma scan_parts_None: "scan_parts ps = None \<longleftrightarrow> \<not> list_ex carries_image ps"
  by (induction ps) (auto simp: carries_image_def truthy_def split: option.splits)

lemma scan_parts_first:
  assumes "\<forall>q\<in>set before. \<not> carries_image q"
    and "inlineData p = Some blob" and "data blob = Some bytes" and "bytes \<noteq> []"
  shows "scan_parts (before @ p # after) = Some bytes"
  using assms by (induction before) (auto simp: carries_image_def truthy_def split: option.splits)

text \<open>Where the parts are reached and none carries an image, and where the response has no
  candidates property, the failure is the ``No image generated.'' error.\<close>

lemma extract_image_no_image:
  assumes "candidates response = None \<or>
    (\<exists>c cs ct. candidates response = Some (c # cs) \<and> content c = Some ct \<and>
       (parts ct = None \<or> (\<exists>ps. parts ct = Some ps \<and> \<not> list_ex carries_image ps)))"
  shows "extract_image response = Inl (Error ''No image generated.'')"
  using assms by (auto simp: extract_image_def scan_parts_None[symmetric])

lemma valid_png_data_uri_append:
  assumes "is_base64 bytes"
  shows "valid_png_data_uri (''data:image/png;base64,'' @ bytes)"
proof -
  have "prefix h (h @ bytes)" and "drop (length h) (h @ bytes) = bytes" for h :: string
    by simp_all
  then show ?thesis
    using assms unfolding valid_png_data_uri_def by (simp only: simp_thms)
qed

text \<open>
  Claim C3 (a response with no inline image part fails with ``No image generated.''). The
  code misses two such responses: a first candidate without content, and an empty
  candidates array. For both, \<^verbatim>\<open>response.candidates[0].content.parts\<close> reads a property of
  \<^verbatim>\<open>undefined\<close>, and the call fails with a \<^verbatim>\<open>TypeError\<close> instead.
\<close>

theorem missing_content_TypeError:
  "generateLookPreview (answer_candidates (Some [\<lparr>content = None\<rparr>])) originalBase64 d =
     Inl TypeError \<and>
   generateLookPreview (answer_candidates (Some [])) originalBase64 d = Inl TypeError"
  by (simp add: generateLookPreview_def answer_candidates_def extract_image_def)

text \<open>
  Claim C4, as amended (a response with an inline image part gives a PNG data URI): when
  the content parts of the response's first candidate hold a part with inline image bytes,
  \<^verbatim>\<open>generateLookPreview\<close> returns \<^verbatim>\<open>data:image/png;base64,\<close> followed by the data of the
  first such part in part order; with base64 data that is a syntactically valid PNG data
  URI. The parts of later candidates are not read.
\<close>

theorem first_image_as_png_data_uri:
  assumes "generateContent (generateLookPreview_request originalBase64 d) = Inr response"
    and "candidates response = Some (c # cs)" and "content c = Some ct"
    and "parts ct = Some (before @ p # after)"
    and "\<forall>q\<in>set before. \<not> carries_image q"
    and "inlineData p = Some blob" and "data blob = Some bytes" and "bytes \<noteq> []"
  shows "generateLookPreview generateContent originalBase64 d =
           Inr (''data:image/png;base64,'' @ bytes) \<and>
         (is_base64 bytes \<longrightarrow> valid_png_data_uri (''data:image/png;base64,'' @ bytes))"
proof (intro conjI impI)
  have "scan_parts (before @ p # after) = Some bytes"
    using assms(5-8) by (rule scan_parts_first)
  then show "generateLookPreview generateContent originalBase64 d =
      Inr (''data:image/png;base64,'' @ bytes)"
    using assms(1-4) by (simp add: generateLookPreview_def extract_image_def)
next
  assume "is_base64 bytes"
  then show "valid_png_data_uri (''data:image/png;base64,'' @ bytes)"
    by (rule valid_png_data_uri_append)
qed

theorem first_image_as_png_data_uri_witness:
  "generateLookPreview
     (answer_candidates (Some [\<lparr>content = Some \<lparr>parts = Some
        [text_part ''Here is the new look.'', image_part ''iVBORw0KGgo='', image_part ''AAAA'']\<rparr>\<rparr>]))
     ''QUJD'' ''Hairstyle: Quiff'' = Inr ''data:image/png;base64,iVBORw0KGgo='' \<and>
   valid_png_data_uri ''data:image/png;base64,iVBORw0KGgo=''"
  using first_image_as_png_data_uri
    [of "answer_candidates (Some [\<lparr>content = Some \<lparr>parts = Some
        [text_part ''Here is the new look.'', image_part ''iVBORw0KGgo='', image_part ''AAAA'']\<rparr>\<rparr>])"
      "''QUJD''" "''Hairstyle: Quiff''"
      "\<lparr>candidates = Some [\<lparr>content = Some \<lparr>parts = Some
        [text_part ''Here is the new look.'', image_part ''iVBORw0KGgo='', image_part ''AAAA'']\<rparr>\<rparr>],
        response_text = None\<rparr>"
      "\<lparr>content = Some \<lparr>parts = Some
        [text_part ''Here is the new look.'', image_part ''iVBORw0KGgo='', image_part ''AAAA'']\<rparr>\<rparr>"
      "[]"
      "\<lparr>parts = Some
        [text_part ''Here is the new look.'', image_part ''iVBORw0KGgo='', image_part ''AAAA'']\<rparr>"
      "[text_part ''Here is the new look.'']" "image_part ''iVBORw0KGgo=''" "[image_part ''AAAA'']"
      "\<lparr>mimeType = Some ''image/png'', data = Some ''iVBORw0KGgo=''\<rparr>" "''iVBORw0KGgo=''"]
  by (simp add: answer_candidates_def text_part_def image_part_def carries_image_def
      is_base64_def base64_digit_def)

text \<open>The claim as stated fails for a response whose only image part is in its second
  candidate: the loop reads \<^verbatim>\<open>candidates[0]\<close> alone, and the call fails.\<close>

theorem first_image_as_png_data_uri_counterexample:
  "answer_candidates
     (Some [\<lparr>content = Some \<lparr>parts = Some [text_part ''Here is the new look.'']\<rparr>\<rparr>,
            \<lparr>content = Some \<lparr>parts = Some [image_part ''iVBORw0KGgo='']\<rparr>\<rparr>])
     (generateLookPreview_request ''QUJD'' ''Hairstyle: Quiff'') =
     Inr \<lparr>candidates =
            Some [\<lparr>content = Some \<lparr>parts = Some [text_part ''Here is the new look.'']\<rparr>\<rparr>,
                  \<lparr>content = Some \<lparr>parts = Some [image_part ''iVBORw0KGgo='']\<rparr>\<rparr>],
          response_text = None\<rparr> \<and>
   list_ex carries_image
     (response_parts
        \<lparr>candidates =
           Some [\<lparr>content = Some \<lparr>parts = Some [text_part ''Here is the new look.'']\<rparr>\<rparr>,
                 \<lparr>content = Some \<lparr>parts = Some [image_part ''iVBORw0KGgo='']\<rparr>\<rparr>],
         response_text = None\<rparr>) \<and>
   generateLookPreview
     (answer_candidates
        (Some [\<lparr>content = Some \<lparr>parts = Some [text_part ''Here is the new look.'']\<rparr>\<rparr>,
               \<lparr>content = Some \<lparr>parts = Some [image_part ''iVBORw0KGgo='']\<rparr>\<rparr>]))
     ''QUJD'' ''Hairstyle: Quiff'' = Inl (Error ''No image generated.'')"
  by (simp add: generateLookPreview_def extract_image_def answer_candidates_def response_parts_def
      carries_image_def truthy_def text_part_def image_part_def)

section \<open>The style playground\<close>

lemma hair_only_description:
  assumes "selectedHair st = Some H" and "H \<noteq> []" and "\<not> truthy (selectedBeard st)"
  shows "fst (handleVisualize generateContent originalImageBase64 st) =
      [(originalImageBase64, ''Hairstyle: '' @ H @ ''. . Create a cohesive look.'')]"
  using assms
  by (auto simp: handleVisualize_def hairPart_def beardPart_def truthy_def Let_def
      split: option.splits)

text \<open>No hairstyle name of the catalog holds the fragment \<^verbatim>\<open>Facial Hair:\<close>.\<close>

lemma catalog_without_fragment: "\<forall>h\<in>set ALL_HAIRSTYLES. \<not> js_includes h ''Facial Hair:''"
  by (simp add: ALL_HAIRSTYLES_def)

text \<open>
  Claim C7, as amended (visualize with a hairstyle and no facial hair): in every state where
  a hairstyle name \<open>H\<close> that is not empty is selected and no facial-hair style is, visualize
  calls the Preview Generator once, with the description
  \<^verbatim>\<open>Hairstyle: H. . Create a cohesive look.\<close>; the description contains \<^verbatim>\<open>Hairstyle: H\<close>; it
  contains \<^verbatim>\<open>Facial Hair:\<close> exactly when the name \<open>H\<close> itself does; and it does not contain
  \<^verbatim>\<open>Facial Hair:\<close> when \<open>H\<close> is a name of the catalog \<^verbatim>\<open>ALL_HAIRSTYLES\<close>.
\<close>

theorem visualize_hair_only:
  assumes "selectedHair st = Some H" and "H \<noteq> []" and "\<not> truthy (selectedBeard st)"
  shows "fst (handleVisualize generateContent originalImageBase64 st) =
           [(originalImageBase64, ''Hairstyle: '' @ H @ ''. . Create a cohesive look.'')] \<and>
         js_includes (''Hairstyle: '' @ H @ ''. . Create a cohesive look.'') (''Hairstyle: '' @ H) \<and>
         (js_includes (''Hairstyle: '' @ H @ ''. . Create a cohesive look.'') ''Facial Hair:'' \<longleftrightarrow>
          js_includes H ''Facial Hair:'') \<and>
         (H \<in> set ALL_HAIRSTYLES \<longrightarrow>
          \<not> js_includes (''Hairstyle: '' @ H @ ''. . Create a cohesive look.'') ''Facial Hair:'')"
proof -
  let ?d = "''Hairstyle: '' @ H @ ''. . Create a cohesive look.''"
  have sent: "fst (handleVisualize generateContent originalImageBase64 st) =
      [(originalImageBase64, ?d)]"
    using assms by (rule hair_only_description)
  have "sublist (''Hairstyle: '' @ H) ([] @ (''Hairstyle: '' @ H) @ ''. . Create a cohesive look.'')"
    by (rule sublist_appendI)
  then have hair: "js_includes ?d (''Hairstyle: '' @ H)"
    by (simp add: js_includes_iff_sublist)
  have "sublist ''Facial Hair:'' H" if "sublist ''Facial Hair:'' ?d"
    using that
    by (intro sublist_between
          [of "''Facial Hair:''" "''Hairstyle: ''" "''. . Create a cohesive look.''" H])
      simp_all
  moreover have "sublist ''Facial Hair:'' ?d" if "sublist ''Facial Hair:'' H"
  proof -
    from that obtain ps ss where "H = ps @ ''Facial Hair:'' @ ss"
      by (auto simp: sublist_def)
    then have "?d = (''Hairstyle: '' @ ps) @ ''Facial Hair:'' @ (ss @ ''. . Create a cohesive look.'')"
      by simp
    then show ?thesis
      unfolding sublist_def by blast
  qed
  ultimately have beard: "js_includes ?d ''Facial Hair:'' \<longleftrightarrow> js_includes H ''Facial Hair:''"
    unfolding js_includes_iff_sublist by blast
  have catalog: "\<not> js_includes ?d ''Facial Hair:''" if "H \<in> set ALL_HAIRSTYLES"
    using that beard catalog_without_fragment by blast
  show ?thesis
    using sent hair beard catalog by blast
qed

theorem visualize_hair_only_witness:
  "fst (handleVisualize reject ''QUJD'' (idle_state\<lparr>selectedHair := Some ''Pompadour''\<rparr>)) =
     [(''QUJD'', ''Hairstyle: Pompadour. . Create a cohesive look.'')] \<and>
   js_includes ''Hairstyle: Pompadour. . Create a cohesive look.'' ''Hairstyle: Pompadour'' \<and>
   ''Pompadour'' \<in> set ALL_HAIRSTYLES \<and>
   \<not> js_includes ''Hairstyle: Pompadour. . Create a cohesive look.'' ''Facial Hair:''"
  using visualize_hair_only
    [of "idle_state\<lparr>selectedHair := Some ''Pompadour''\<rparr>" "''Pompadour''" reject "''QUJD''"]
  by (simp add: idle_state_def truthy_def ALL_HAIRSTYLES_def)

text \<open>The claim as stated fails for a name that holds the fragment itself, since the name
  is copied into the description; and for the empty name, which the handler takes for no
  selection, so that nothing is sent.\<close>

theorem visualize_hair_only_counterexample:
  "selectedHair (idle_state\<lparr>selectedHair := Some ''Facial Hair: Goatee''\<rparr>) =
     Some ''Facial Hair: Goatee'' \<and>
   selectedBeard (idle_state\<lparr>selectedHair := Some ''Facial Hair: Goatee''\<rparr>) = None \<and>
   fst (handleVisualize reject ''QUJD'' (idle_state\<lparr>selectedHair := Some ''Facial Hair: Goatee''\<rparr>)) =
     [(''QUJD'', ''Hairstyle: Facial Hair: Goatee. . Create a cohesive look.'')] \<and>
   js_includes ''Hairstyle: Facial Hair: Goatee. . Create a cohesive look.'' ''Facial Hair:'' \<and>
   handleVisualize reject ''QUJD'' (idle_state\<lparr>selectedHair := Some []\<rparr>) =
     ([], idle_state\<lparr>selectedHair := Some []\<rparr>)"
  by (simp add: handleVisualize_def hairPart_def beardPart_def idle_state_def Let_def)

text \<open>
  Claim C8 (no preview generation without a selection): in every state where the hairstyle
  selection and the facial-hair selection are both null, \<^verbatim>\<open>handleVisualize\<close> calls the
  Preview Generator not at all and leaves the state as it is; the action button is disabled
  in such a state.
\<close>

theorem visualize_without_selection:
  assumes "selectedHair st = None" and "selectedBeard st = None"
  shows "handleVisualize generateContent originalImageBase64 st = ([], st) \<and> visualize_disabled st"
  using assms
  by (simp add: handleVisualize_def hairPart_def beardPart_def visualize_disabled_def truthy_def)

theorem visualize_without_selection_witness:
  "handleVisualize
     (answer_candidates (Some [\<lparr>content = Some \<lparr>parts = Some [image_part ''iVBORw0KGgo='']\<rparr>\<rparr>]))
     ''QUJD'' idle_state = ([], idle_state) \<and> visualize_disabled idle_state"
  using visualize_without_selection
    [of idle_state
        "answer_candidates (Some [\<lparr>content = Some \<lparr>parts = Some [image_part ''iVBORw0KGgo='']\<rparr>\<rparr>])"
        "''QUJD''"]
  by (simp add: idle_state_def)

end
